theory Spec2Isabelle
  imports Complex_Main
begin

section \<open>The TTL cache of simplecache.py\<close>

text \<open>
  The class \<^verbatim>\<open>Cache\<close> keeps two class-level dictionaries, \<^verbatim>\<open>_cache\<close> (key to value)
  and \<^verbatim>\<open>_ttl\<close> (key to expiry instant), and only class methods work on them. The
  model passes the pair of dictionaries explicitly: every operation takes the store and
  returns the store it leaves behind.

  Conventions of the model:
  \<^item> a dictionary is a map from \<open>string\<close>; \<^verbatim>\<open>key in d\<close> is \<open>contains d key\<close>,
    \<^verbatim>\<open>d[key]\<close> on a missing key raises \<^verbatim>\<open>KeyError\<close>, \<^verbatim>\<open>d[key] = x\<close> is a map update;
  \<^item> every call reads the clock once (\<^verbatim>\<open>time.time()\<close>); that reading is the
    argument \<open>t\<close> of the operation;
  \<^item> instants and durations are Python floats (IEEE binary64). A finite float is the
    real number it denotes, and \<open>is_float\<close> says that a real is one. The sum
    \<^verbatim>\<open>t + ttl\<close> is rounded as the machine rounds it (\<open>float_add\<close>). The difference
    \<^verbatim>\<open>t - 60\<close> is kept exact: for a float \<open>t\<close> from 64 up to \<open>2 ^ 55\<close>, which covers
    every reading of a clock that counts seconds since 1970, the machine result is the
    exact difference (\<open>clock_minus_60_exact\<close> below). Infinities and NaN are not values
    of the model;
  \<^item> \<^verbatim>\<open>Cache.get\<close> returns the stored object on a hit and Python's \<^verbatim>\<open>None\<close> on a
    miss; the model returns \<open>Some v\<close> on the hit branch and \<open>None\<close> on the miss branch;
  \<^item> the awaited producer \<^verbatim>\<open>func\<close> is given by its outcome, \<open>Inr result\<close> or
    \<open>Inl e\<close> for an exception \<open>e\<close> raised out of the \<^verbatim>\<open>await\<close>; it does not touch the
    store itself, and nothing else runs on the store while it is awaited;
  \<^item> of the \<^verbatim>\<open>logger.info\<close> calls only the evaluation of their argument matters to
    the caller: the two "Cache set" lines format the expiry with \<^verbatim>\<open>time.gmtime\<close>,
    which raises outside its range (\<open>gmtime_raises\<close>); the other messages cannot raise
    and are left out.
\<close>

subsection \<open>Float arithmetic\<close>

text \<open>Rounding of a real to the nearest integer, a tie going to the even neighbour.\<close>

definition rne :: "real \<Rightarrow> int" where
  "rne y =
     (let f = \<lfloor>y\<rfloor>; r = y - of_int f
      in if r < 1/2 then f else if 1/2 < r then f + 1 else if even f then f else f + 1)"

text \<open>
  The spacing of the floats around \<open>x\<close>: with \<open>2 ^ e \<le> \<bar>x\<bar> < 2 ^ (e + 1)\<close> the
  53-bit significand leaves steps of \<open>2 ^ (e - 52)\<close>; below \<open>2 ^ - 1022\<close> (the
  subnormal range) the step stays \<open>2 ^ - 1074\<close>.
\<close>

definition quantum :: "real \<Rightarrow> real" where
  "quantum x = 2 powr (of_int (max \<lfloor>log 2 \<bar>x\<bar>\<rfloor> (- 1022)) - 52)"

text \<open>
  Round to nearest, ties to even: the float that a float operation delivers for the
  exact result \<open>x\<close>. (An exact result of magnitude \<open>2 ^ 1024 - 2 ^ 970\<close> or more
  becomes an infinity on the machine; the sum of a clock reading below \<open>2 ^ 970\<close> and
  a finite float stays under that.)
\<close>

definition float_round :: "real \<Rightarrow> real" where
  "float_round x = (if x = 0 then 0 else of_int (rne (x / quantum x)) * quantum x)"

definition float_add :: "real \<Rightarrow> real \<Rightarrow> real" where
  "float_add x y = float_round (x + y)"

definition is_float :: "real \<Rightarrow> bool" where
  "is_float x = (float_round x = x)"

subsection \<open>The store\<close>

record 'v cache_state =
  cls_cache :: "string \<rightharpoonup> 'v"
  cls_ttl :: "string \<rightharpoonup> real"

text \<open>
  What a call can raise: \<^verbatim>\<open>KeyError\<close> from a subscription, the error of
  \<^verbatim>\<open>time.gmtime\<close> on an instant out of its range (an \<^verbatim>\<open>OSError\<close> or, further out, an
  \<^verbatim>\<open>OverflowError\<close>), or whatever the producer raised.
\<close>

datatype 'e exn = KeyError | GmtimeError | Raised 'e

text \<open>The class attributes as the class body initialises them: two empty dictionaries.\<close>

definition initial :: "'v cache_state" where
  "initial = \<lparr>cls_cache = Map.empty, cls_ttl = Map.empty\<rparr>"

text \<open>Python's membership test \<^verbatim>\<open>key in d\<close> on a dictionary.\<close>

definition contains :: "(string \<rightharpoonup> 'a) \<Rightarrow> string \<Rightarrow> bool" where
  "contains d key = (case d key of None \<Rightarrow> False | Some _ \<Rightarrow> True)"

text \<open>
  \<^verbatim>\<open>time.gmtime(secs)\<close> floors \<open>secs\<close> to whole seconds and fails when the calendar
  year of that instant does not fit the C \<^verbatim>\<open>int\<close> of \<^verbatim>\<open>struct tm\<close>. The two bounds are
  those of CPython on Linux (glibc, 64-bit \<^verbatim>\<open>time_t\<close>): the first second of the year
  \<open>-2147481748\<close> and the last second of the year \<open>2147485547\<close>. They belong to the
  platform, not to the repository. \<^verbatim>\<open>time.strftime\<close> with the format
  \<^verbatim>\<open>"%H:%M:%S"\<close> accepts every value \<^verbatim>\<open>time.gmtime\<close> returns.
\<close>

definition gmtime_min :: int where
  "gmtime_min = - 67768040609740800"

definition gmtime_max :: int where
  "gmtime_max = 67767976233532799"

definition gmtime_raises :: "real \<Rightarrow> bool" where
  "gmtime_raises secs = (\<lfloor>secs\<rfloor> < gmtime_min \<or> gmtime_max < \<lfloor>secs\<rfloor>)"

subsection \<open>add, get, invalidate, clear\<close>

text \<open>
  \<^verbatim>\<open>Cache.add(key, value, ttl)\<close>: reads the clock, assigns both dictionaries, then
  evaluates the log message, which formats \<^verbatim>\<open>t + ttl\<close> with \<^verbatim>\<open>time.gmtime\<close>. The
  result is the store the call leaves and how it ends: \<open>Inr ()\<close> when it returns,
  \<open>Inl GmtimeError\<close> when the log line raises, which is after both assignments.
\<close>

definition Cache_add ::
    "'v cache_state \<Rightarrow> string \<Rightarrow> 'v \<Rightarrow> real \<Rightarrow> real \<Rightarrow> 'v cache_state \<times> ('e exn + unit)" where
  "Cache_add s key val ttl t =
     (s\<lparr>cls_cache := (cls_cache s)(key \<mapsto> val),
        cls_ttl := (cls_ttl s)(key \<mapsto> float_add t ttl)\<rparr>,
      if gmtime_raises (float_add t ttl) then Inl GmtimeError else Inr ())"

text \<open>
  \<^verbatim>\<open>Cache.get(key)\<close>: the membership test is on \<^verbatim>\<open>_cache\<close>, the expiry is then read
  from \<^verbatim>\<open>_ttl\<close> by subscription, which raises \<^verbatim>\<open>KeyError\<close> when \<^verbatim>\<open>_ttl\<close> has no such
  key. The method assigns nothing, so the model returns no store.
\<close>

definition Cache_get :: "'v cache_state \<Rightarrow> string \<Rightarrow> real \<Rightarrow> 'e exn + 'v option" where
  "Cache_get s key t =
     (if contains (cls_cache s) key then
        (case cls_ttl s key of
           None \<Rightarrow> Inl KeyError
         | Some expiry \<Rightarrow>
             if expiry > t then Inr (Some (the (cls_cache s key))) else Inr None)
      else Inr None)"

text \<open>
  \<^verbatim>\<open>Cache.invalidate(key)\<close>: only when \<^verbatim>\<open>_cache\<close> has the key, \<^verbatim>\<open>_ttl[key]\<close> is
  assigned the clock reading minus 60.
\<close>

definition Cache_invalidate :: "'v cache_state \<Rightarrow> string \<Rightarrow> real \<Rightarrow> 'v cache_state" where
  "Cache_invalidate s key t =
     (if contains (cls_cache s) key
      then s\<lparr>cls_ttl := (cls_ttl s)(key \<mapsto> t - 60)\<rparr>
      else s)"

text \<open>\<^verbatim>\<open>Cache.clear()\<close>: both attributes are rebound to fresh empty dictionaries.\<close>

definition Cache_clear :: "'v cache_state \<Rightarrow> 'v cache_state" where
  "Cache_clear s = s\<lparr>cls_cache := Map.empty, cls_ttl := Map.empty\<rparr>"

subsection \<open>The decorator's wrapper\<close>

text \<open>
  \<^verbatim>\<open>Cache.cache(key, ttl, ignore, invalidate)(func)\<close> returns \<^verbatim>\<open>wrapper\<close>, a closure over
  the four settings and \<^verbatim>\<open>func\<close>. One call of \<^verbatim>\<open>wrapper\<close> is described by the store it
  leaves, the number of times it awaited \<^verbatim>\<open>func\<close>, and what it returned or raised.
\<close>

record ('e, 'v) call =
  store_after :: "'v cache_state"
  func_calls :: nat
  returned :: "'e exn + 'v"

text \<open>
  The clock is read once, on entry (\<open>t\<close>), before \<^verbatim>\<open>func\<close> is awaited, and that reading
  is used in all three branches. The branches, in the order of the source:
  \<^item> \<^verbatim>\<open>invalidate and key in cls._cache\<close>: assign \<^verbatim>\<open>_ttl[key] = t - 60\<close>, await
    \<^verbatim>\<open>func\<close> and return (or raise) what it does;
  \<^item> \<^verbatim>\<open>not ignore and key in cls._cache\<close>: read \<^verbatim>\<open>_ttl[key]\<close> (a \<^verbatim>\<open>KeyError\<close> when
    missing) and, when it is greater than \<open>t\<close>, return \<^verbatim>\<open>_cache[key]\<close>;
  \<^item> otherwise await \<^verbatim>\<open>func\<close>; when it returns, assign \<^verbatim>\<open>_cache[key]\<close> and
    \<^verbatim>\<open>_ttl[key] = t + ttl\<close>, evaluate the log message (the same \<^verbatim>\<open>time.gmtime\<close> call as
    in \<^verbatim>\<open>Cache.add\<close>, so it may raise after the two assignments) and return the result;
    when \<^verbatim>\<open>func\<close> raises, the two assignments are not reached.
\<close>

definition wrapper ::
    "string \<Rightarrow> real \<Rightarrow> bool \<Rightarrow> bool \<Rightarrow> ('e + 'v) \<Rightarrow> 'v cache_state \<Rightarrow> real \<Rightarrow> ('e, 'v) call" where
  "wrapper key ttl ignore invalidate func s t =
     (if invalidate \<and> contains (cls_cache s) key then
        \<lparr>store_after = s\<lparr>cls_ttl := (cls_ttl s)(key \<mapsto> t - 60)\<rparr>,
         func_calls = 1,
         returned = (case func of Inl e \<Rightarrow> Inl (Raised e) | Inr result \<Rightarrow> Inr result)\<rparr>
      else if \<not> ignore \<and> contains (cls_cache s) key \<and> cls_ttl s key = None then
        \<lparr>store_after = s, func_calls = 0, returned = Inl KeyError\<rparr>
      else if \<not> ignore \<and> contains (cls_cache s) key \<and> the (cls_ttl s key) > t then
        \<lparr>store_after = s, func_calls = 0, returned = Inr (the (cls_cache s key))\<rparr>
      else
        (case func of
           Inl e \<Rightarrow> \<lparr>store_after = s, func_calls = 1, returned = Inl (Raised e)\<rparr>
         | Inr result \<Rightarrow>
             \<lparr>store_after = s\<lparr>cls_cache := (cls_cache s)(key \<mapsto> result),
                              cls_ttl := (cls_ttl s)(key \<mapsto> float_add t ttl)\<rparr>,
              func_calls = 1,
              returned =
                (if gmtime_raises (float_add t ttl) then Inl GmtimeError else Inr result)\<rparr>))"

text \<open>
  The two dictionaries are in step when they have the same keys.
\<close>

definition in_sync :: "'v cache_state \<Rightarrow> bool" where
  "in_sync s = (dom (cls_cache s) = dom (cls_ttl s))"

section \<open>Properties\<close>

subsection \<open>Float rounding\<close>

lemma rne_of_int: "rne (of_int n) = n"
  by (simp add: rne_def)

lemma rne_bounds: "\<lfloor>y\<rfloor> \<le> rne y \<and> rne y \<le> \<lfloor>y\<rfloor> + 1"
  by (simp add: rne_def Let_def)

lemma rne_mono: assumes "x \<le> y" shows "rne x \<le> rne y"
proof (cases "\<lfloor>x\<rfloor> = \<lfloor>y\<rfloor>")
  case True
  with assms show ?thesis by (auto simp: rne_def Let_def)
next
  case False
  with assms have "\<lfloor>x\<rfloor> + 1 \<le> \<lfloor>y\<rfloor>" using floor_mono [of x y] by linarith
  with rne_bounds [of x] rne_bounds [of y] show ?thesis by linarith
qed

lemma rne_neg: "rne (- y) = - rne y"
proof (cases "y = of_int \<lfloor>y\<rfloor>")
  case True
  then obtain n where "y = of_int n" ..
  then have "- y = of_int (- n)" by simp
  then show ?thesis using \<open>y = of_int n\<close> rne_of_int by metis
next
  case False
  then have fl: "\<lfloor>- y\<rfloor> = - \<lfloor>y\<rfloor> - 1"
    by (simp add: floor_minus ceiling_altdef)
  show ?thesis
    unfolding rne_def Let_def fl by (auto; linarith?)
qed


lemma quantum_pos: "0 < quantum x"
  by (simp add: quantum_def)

lemma quantum_minus: "quantum (- x) = quantum x"
  by (simp add: quantum_def)

lemma float_round_minus: "float_round (- x) = - float_round x"
  by (simp add: float_round_def quantum_minus rne_neg)

lemma float_round_nonneg: assumes "0 \<le> x" shows "0 \<le> float_round x"
proof (cases "x = 0")
  case True then show ?thesis by (simp add: float_round_def)
next
  case False
  from assms quantum_pos [of x] have "0 \<le> x / quantum x" by simp
  then have "rne (of_int 0) \<le> rne (x / quantum x)" by (intro rne_mono) simp
  then have "0 \<le> rne (x / quantum x)" by (simp add: rne_of_int del: of_int_0)
  with quantum_pos [of x] False show ?thesis by (simp add: float_round_def)
qed

lemma below_next_power: assumes "0 < x" shows "x < 2 powr (of_int \<lfloor>log 2 x\<rfloor> + 1)"
proof -
  have "log 2 x < of_int \<lfloor>log 2 x\<rfloor> + 1" by linarith
  then have "2 powr log 2 x < 2 powr (of_int \<lfloor>log 2 x\<rfloor> + 1)" by (simp only: powr_less_cancel_iff one_less_numeral_iff semiring_norm)
  with assms show ?thesis by simp
qed

lemma above_power: assumes "0 < x" shows "2 powr of_int \<lfloor>log 2 x\<rfloor> \<le> x"
proof -
  have "of_int \<lfloor>log 2 x\<rfloor> \<le> log 2 x" by simp
  then have "2 powr of_int \<lfloor>log 2 x\<rfloor> \<le> 2 powr log 2 x" by (simp only: powr_le_cancel_iff one_less_numeral_iff semiring_norm)
  with assms show ?thesis by simp
qed

lemma pow53: "(2::real) ^ 53 * 2 powr (a - 52) = 2 powr (a + 1)"
proof -
  have "(2::real) ^ 53 = 2 powr 53" by simp
  then have "(2::real) ^ 53 * 2 powr (a - 52) = 2 powr 53 * 2 powr (a - 52)" by (simp only:)
  also have "\<dots> = 2 powr (53 + (a - 52))" by (simp only: powr_add)
  also have "53 + (a - 52) = a + 1" by simp
  finally show ?thesis .
qed

lemma pow52: "(2::real) ^ 52 * 2 powr (a - 52) = 2 powr a"
proof -
  have "(2::real) ^ 52 = 2 powr 52" by simp
  then have "(2::real) ^ 52 * 2 powr (a - 52) = 2 powr 52 * 2 powr (a - 52)" by (simp only:)
  also have "\<dots> = 2 powr (52 + (a - 52))" by (simp only: powr_add)
  also have "52 + (a - 52) = a" by simp
  finally show ?thesis .
qed

lemma div53: "(2::real) powr (a + 1) / 2 powr (a - 52) = 2 ^ 53"
  using pow53 [of a] by (simp add: field_simps)

lemma div52: "(2::real) powr a / 2 powr (a - 52) = 2 ^ 52"
  using pow52 [of a] by (simp add: field_simps)

lemma float_round_upper:
  assumes "0 < x"
  shows "float_round x \<le> 2 powr (of_int (max \<lfloor>log 2 x\<rfloor> (- 1022)) + 1)"
proof -
  define E where "E = max \<lfloor>log 2 x\<rfloor> (- 1022)"
  have q: "quantum x = 2 powr (of_int E - 52)" using assms by (simp add: quantum_def E_def)
  have "x < 2 powr (of_int \<lfloor>log 2 x\<rfloor> + 1)" using assms by (rule below_next_power)
  also have "\<dots> \<le> 2 powr (of_int E + 1)" by (simp add: E_def)
  finally have "x / quantum x \<le> 2 powr (of_int E + 1) / 2 powr (of_int E - 52)"
    unfolding q by (simp add: divide_right_mono)
  also have "\<dots> = of_int (2 ^ 53)" by (simp add: div53)
  finally have "rne (x / quantum x) \<le> rne (of_int (2 ^ 53))" by (rule rne_mono)
  then have "rne (x / quantum x) \<le> 2 ^ 53" by (simp only: rne_of_int)
  then have "(of_int (rne (x / quantum x)) :: real) \<le> of_int (2 ^ 53)"
    by (simp only: of_int_le_iff)
  then have "of_int (rne (x / quantum x)) \<le> (2 ^ 53 :: real)" by simp
  then have "of_int (rne (x / quantum x)) * quantum x \<le> 2 ^ 53 * quantum x"
    using quantum_pos [of x] by (simp only: mult_le_cancel_right) simp
  also have "2 ^ 53 * quantum x = 2 powr (of_int E + 1)" by (simp only: q pow53)
  finally show ?thesis using assms by (simp add: float_round_def E_def)
qed

lemma float_round_lower:
  assumes "0 < x" and "- 1022 \<le> \<lfloor>log 2 x\<rfloor>"
  shows "2 powr of_int \<lfloor>log 2 x\<rfloor> \<le> float_round x"
proof -
  define e where "e = \<lfloor>log 2 x\<rfloor>"
  have "max \<lfloor>log 2 x\<rfloor> (- 1022) = \<lfloor>log 2 x\<rfloor>" using assms(2) by (rule max_absorb1)
  then have q: "quantum x = 2 powr (of_int e - 52)"
    using assms(1) by (simp only: quantum_def e_def abs_of_pos)
  have "(2::real) ^ 52 = 2 powr of_int e / 2 powr (of_int e - 52)" by (simp only: div52)
  also have "\<dots> \<le> x / quantum x"
    unfolding q e_def using above_power [OF assms(1)] by (simp add: divide_right_mono)
  finally have "of_int (2 ^ 52) \<le> x / quantum x" by simp
  then have "rne (of_int (2 ^ 52)) \<le> rne (x / quantum x)" by (rule rne_mono)
  then have "2 ^ 52 \<le> rne (x / quantum x)" by (simp only: rne_of_int)
  then have "(of_int (2 ^ 52) :: real) \<le> of_int (rne (x / quantum x))"
    by (simp only: of_int_le_iff)
  then have "(2 ^ 52 :: real) \<le> of_int (rne (x / quantum x))" by simp
  then have "2 ^ 52 * quantum x \<le> of_int (rne (x / quantum x)) * quantum x"
    using quantum_pos [of x] by (simp only: mult_le_cancel_right) simp
  moreover have "2 ^ 52 * quantum x = 2 powr of_int e" by (simp only: q pow52)
  ultimately show ?thesis using assms by (simp add: float_round_def e_def)
qed

lemma float_round_mono_pos:
  assumes "0 < x" and "x \<le> y"
  shows "float_round x \<le> float_round y"
proof -
  define Ex where "Ex = max \<lfloor>log 2 x\<rfloor> (- 1022)"
  define Ey where "Ey = max \<lfloor>log 2 y\<rfloor> (- 1022)"
  from assms have ypos: "0 < y" by simp
  from assms have "log 2 x \<le> log 2 y" by simp
  then have "\<lfloor>log 2 x\<rfloor> \<le> \<lfloor>log 2 y\<rfloor>" by (rule floor_mono)
  then have le: "Ex \<le> Ey" by (simp add: Ex_def Ey_def)
  show ?thesis
  proof (cases "Ex = Ey")
    case True
    then have q: "quantum x = quantum y" using assms ypos by (simp add: quantum_def Ex_def Ey_def)
    from assms quantum_pos [of y] have "x / quantum y \<le> y / quantum y"
      by (simp add: divide_right_mono)
    then have "rne (x / quantum y) \<le> rne (y / quantum y)" by (rule rne_mono)
    then have "of_int (rne (x / quantum y)) * quantum y \<le> of_int (rne (y / quantum y)) * quantum y"
      using quantum_pos [of y] by (simp only: mult_le_cancel_right) simp
    with assms ypos q show ?thesis by (simp add: float_round_def)
  next
    case False
    with le have lt: "Ex + 1 \<le> Ey" by simp
    have "- 1022 \<le> Ex" unfolding Ex_def by (rule max.cobounded2)
    with lt have "Ey \<noteq> - 1022" by linarith
    moreover have "Ey = \<lfloor>log 2 y\<rfloor> \<or> Ey = - 1022" unfolding Ey_def by (rule max_def [THEN ssubst]) metis
    ultimately have Ey: "Ey = \<lfloor>log 2 y\<rfloor>" by blast
    have "- 1022 \<le> Ey" unfolding Ey_def by (rule max.cobounded2)
    with Ey have big: "- 1022 \<le> \<lfloor>log 2 y\<rfloor>" by (simp only:)
    have "float_round x \<le> 2 powr (of_int Ex + 1)"
      using float_round_upper [OF assms(1)] by (simp add: Ex_def)
    also have "\<dots> \<le> 2 powr of_int Ey" using lt by simp
    also have "\<dots> \<le> float_round y" using float_round_lower [OF ypos big] by (simp add: Ey)
    finally show ?thesis .
  qed
qed

lemma float_round_mono: assumes "x \<le> y" shows "float_round x \<le> float_round y"
proof -
  consider "0 < x" | "x \<le> 0" "0 \<le> y" | "y < 0" by linarith
  then show ?thesis
  proof cases
    case 1
    with assms show ?thesis by (simp add: float_round_mono_pos)
  next
    case 2
    then have "0 \<le> float_round (- x)" and "0 \<le> float_round y"
      by (simp_all add: float_round_nonneg)
    then show ?thesis by (simp add: float_round_minus)
  next
    case 3
    with assms have "float_round (- y) \<le> float_round (- x)"
      by (intro float_round_mono_pos) simp_all
    then show ?thesis by (simp add: float_round_minus)
  qed
qed


lemma float_round_exact_pos:
  assumes "0 < m" and "m < 2 ^ 53" and "- 1074 \<le> k"
  shows "float_round (of_int m * 2 powr of_int k) = of_int m * 2 powr of_int k"
proof -
  define x :: real where "x = of_int m * 2 powr of_int k"
  define j where "j = \<lfloor>log 2 (of_int m)\<rfloor>"
  define E where "E = max (j + k) (- 1022)"
  define p where "p = k - E + 52"
  from assms(1) have xpos: "0 < x" by (simp add: x_def)
  from assms(1) have "log 2 x = log 2 (of_int m) + of_int k"
    by (simp add: x_def log_mult)
  then have "\<lfloor>log 2 x\<rfloor> = j + k" by (simp add: j_def)
  with xpos have q: "quantum x = 2 powr (of_int E - 52)" by (simp add: quantum_def E_def)
  from assms(1) have "(1::real) \<le> of_int m" by simp
  then have "0 \<le> log 2 (of_int m)" by simp
  then have j0: "0 \<le> j" by (simp add: j_def)
  from assms(2) have "(of_int m :: real) < of_int (2 ^ 53)" by (simp only: of_int_less_iff)
  then have "(of_int m :: real) < 2 powr 53" by simp
  with assms(1) have "log 2 (of_int m) < 53" by (simp add: log_less_iff)
  then have "j < 53" by (simp add: j_def floor_less_iff)
  with assms(3) have p0: "0 \<le> p" by (simp add: p_def E_def max_def)
  have "x / quantum x = of_int m * (2 powr of_int k / 2 powr (of_int E - 52))"
    unfolding q by (simp add: x_def)
  also have "2 powr of_int k / 2 powr (of_int E - 52) = (2::real) powr of_int p"
  proof -
    have "(of_int p :: real) = of_int k - (of_int E - 52)" by (simp add: p_def)
    then show ?thesis by (simp only: powr_diff)
  qed
  also have "(2::real) powr of_int p = 2 ^ nat p" using p0 by (simp add: powr_real_of_int)
  finally have "x / quantum x = of_int (m * 2 ^ nat p)" by simp
  then have "rne (x / quantum x) = m * 2 ^ nat p" by (simp only: rne_of_int)
  with xpos have "float_round x = of_int (m * 2 ^ nat p) * quantum x"
    by (simp only: float_round_def) simp
  then have "float_round x = of_int (m * 2 ^ nat p) * 2 powr (of_int E - 52)"
    by (simp only: q)
  also have "\<dots> = of_int m * ((2::real) powr of_int p * 2 powr (of_int E - 52))"
    using p0 by (simp add: powr_real_of_int)
  also have "(2::real) powr of_int p * 2 powr (of_int E - 52) = 2 powr of_int k"
  proof -
    have "(of_int k :: real) = of_int p + (of_int E - 52)" by (simp add: p_def)
    then show ?thesis by (simp only: powr_add)
  qed
  finally show ?thesis by (simp add: x_def)
qed

lemma float_round_exact:
  assumes "\<bar>m\<bar> < 2 ^ 53" and "- 1074 \<le> k"
  shows "float_round (of_int m * 2 powr of_int k) = of_int m * 2 powr of_int k"
proof -
  consider "m = 0" | "0 < m" | "m < 0" by linarith
  then show ?thesis
  proof cases
    case 1 then show ?thesis by (simp add: float_round_def)
  next
    case 2 with assms show ?thesis by (simp add: float_round_exact_pos)
  next
    case 3
    with assms have "float_round (of_int (- m) * 2 powr of_int k) = of_int (- m) * 2 powr of_int k"
      by (intro float_round_exact_pos) simp_all
    then have "float_round (- (of_int m * 2 powr of_int k)) = - (of_int m * 2 powr of_int k)"
      by simp
    then show ?thesis by (simp only: float_round_minus neg_equal_iff_equal)
  qed
qed

lemma float_round_of_int: "\<bar>n\<bar> < 2 ^ 53 \<Longrightarrow> float_round (of_int n) = of_int n"
  using float_round_exact [of n 0] by simp

lemma float_round_numeral:
  "(numeral w :: int) < 2 ^ 53 \<Longrightarrow> float_round (numeral w) = numeral w"
  using float_round_of_int [of "numeral w"] by simp

lemma float_round_0: "float_round 0 = 0"
  by (simp add: float_round_def)

lemma float_round_1: "float_round 1 = 1"
  using float_round_of_int [of 1] by simp

lemma float_add_absorbed: "float_add 1700000000 (1 / 2 ^ 24) = 1700000000"
proof -
  define x :: real where "x = 1700000000 + 1 / 2 ^ 24"
  have "2 powr 30 \<le> x" and "x < 2 powr 31" by (simp_all add: x_def)
  then have "\<lfloor>log 2 x\<rfloor> = 30"
    by (intro floor_eq_iff [THEN iffD2]) (simp add: x_def le_log_iff log_less_iff)
  then have q: "quantum x = 1 / 2 ^ 22"
    by (simp add: quantum_def x_def powr_minus_divide)
  have "x / quantum x = 7130316800000000 + 1 / 4" unfolding q by (simp add: x_def)
  then have "rne (x / quantum x) = rne (7130316800000000 + 1 / 4)" by (simp only:)
  also have "rne (7130316800000000 + 1 / 4) = 7130316800000000" by (simp add: rne_def)
  finally have "rne (x / quantum x) = 7130316800000000" .
  moreover have "x \<noteq> 0" by (simp add: x_def)
  ultimately have "float_round x = 7130316800000000 * quantum x"
    by (simp only: float_round_def) simp
  then have "float_round x = 1700000000" by (simp only: q) simp
  then show ?thesis by (simp only: float_add_def x_def)
qed


lemma clock_minus_60_exact:
  assumes "is_float t" and "64 \<le> t" and "t < 2 ^ 55"
  shows "float_round (t - 60) = t - 60"
proof -
  define e where "e = \<lfloor>log 2 t\<rfloor>"
  define M where "M = rne (t / quantum t)"
  define M' where "M' = M - 15 * 2 ^ nat (54 - e)"
  from assms(2) have tpos: "0 < t" by simp
  from assms(2) have "2 powr 6 \<le> t" by simp
  with tpos have "6 \<le> log 2 t" by (simp add: le_log_iff)
  then have e6: "6 \<le> e" by (simp add: e_def le_floor_iff)
  from assms(3) have "t < 2 powr 55" by simp
  with tpos have "log 2 t < 55" by (simp add: log_less_iff)
  then have e54: "e \<le> 54" by (simp add: e_def floor_less_iff)
  from e6 have "max e (- 1022) = e" by simp
  with tpos have q: "quantum t = 2 powr of_int (e - 52)" by (simp add: quantum_def e_def)
  from assms(1) tpos have t: "t = of_int M * 2 powr of_int (e - 52)"
    by (simp add: is_float_def float_round_def M_def q)
  have "(2::real) ^ nat (54 - e) = 2 powr of_int (54 - e)"
    using e54 powr_real_of_int [of 2 "54 - e"] by simp
  then have "(2::real) ^ nat (54 - e) * 2 powr of_int (e - 52) = 2 powr (of_int (54 - e) + of_int (e - 52))"
    by (simp only: powr_add)
  also have "of_int (54 - e) + of_int (e - 52) = (2::real)" by simp
  finally have four: "(2::real) ^ nat (54 - e) * 2 powr of_int (e - 52) = 4"
    by simp
  have "of_int M' * 2 powr of_int (e - 52)
      = of_int M * 2 powr of_int (e - 52) - 15 * ((2::real) ^ nat (54 - e) * 2 powr of_int (e - 52))"
    by (simp add: M'_def algebra_simps)
  also have "\<dots> = t - 60" by (simp only: four t [symmetric])
  finally have eq: "of_int M' * 2 powr of_int (e - 52) = t - 60" .
  have qpos: "(0::real) < 2 powr of_int (e - 52)" by simp
  from eq assms(2) have "(0::real) < of_int M' * 2 powr of_int (e - 52)" by simp
  with qpos have "(0::real) < of_int M'" by (simp add: zero_less_mult_iff)
  then have M0: "0 < M'" by simp
  have "t < 2 powr (of_int e + 1)" unfolding e_def using tpos by (rule below_next_power)
  also have "\<dots> = 2 ^ 53 * 2 powr (of_int e - 52)" by (simp only: pow53)
  finally have "of_int M' * 2 powr of_int (e - 52) < (2::real) ^ 53 * 2 powr of_int (e - 52)"
    using eq by simp
  with qpos have "(of_int M' :: real) < 2 ^ 53" by (simp only: mult_less_cancel_right_pos)
  then have "(of_int M' :: real) < of_int (2 ^ 53)" by simp
  then have M53: "M' < 2 ^ 53" by (simp only: of_int_less_iff)
  from M0 M53 e6 have "float_round (of_int M' * 2 powr of_int (e - 52)) = of_int M' * 2 powr of_int (e - 52)"
    by (intro float_round_exact) simp_all
  then show ?thesis by (simp only: eq)
qed

lemma float_add_mono_right:
  assumes "is_float t" and "0 \<le> d" shows "t \<le> float_add t d"
proof -
  from assms(2) have "float_round t \<le> float_round (t + d)" by (intro float_round_mono) simp
  with assms(1) show ?thesis by (simp add: is_float_def float_add_def)
qed

lemma float_add_below:
  assumes "is_float t'" and "t + d \<le> t'" shows "float_add t d \<le> t'"
proof -
  from assms(2) have "float_round (t + d) \<le> float_round t'" by (rule float_round_mono)
  with assms(1) show ?thesis by (simp add: is_float_def float_add_def)
qed

lemma is_float_numeral: "(numeral w :: int) < 2 ^ 53 \<Longrightarrow> is_float (numeral w)"
  by (simp add: is_float_def float_round_numeral)

lemma is_float_0: "is_float 0"
  by (simp add: is_float_def float_round_0)

subsection \<open>Auxiliary facts\<close>

lemma contains_dom: "contains d key = (key \<in> dom d)"
  by (simp add: contains_def domIff split: option.splits)

lemma in_sync_None: "in_sync s \<Longrightarrow> (cls_ttl s k = None) = (cls_cache s k = None)"
proof -
  assume "in_sync s"
  then have "(k \<in> dom (cls_ttl s)) = (k \<in> dom (cls_cache s))"
    by (simp add: in_sync_def)
  then show ?thesis by (auto simp: domIff)
qed

lemma add_store:
  "fst (Cache_add s k v d t) =
     s\<lparr>cls_cache := (cls_cache s)(k \<mapsto> v), cls_ttl := (cls_ttl s)(k \<mapsto> float_add t d)\<rparr>"
  by (simp add: Cache_add_def)

lemma get_after_add:
  "Cache_get (fst (Cache_add s k v d t)) k t' =
     (if t' < float_add t d then Inr (Some v) else Inr None)"
  by (simp add: Cache_get_def Cache_add_def contains_def)

lemma get_found_iff:
  "Cache_get s k t = Inr (Some w)
   \<longleftrightarrow> (\<exists>expiry. cls_cache s k = Some w \<and> cls_ttl s k = Some expiry \<and> t < expiry)"
  by (auto simp: Cache_get_def contains_def split: option.splits)

text \<open>
  What \<^verbatim>\<open>Cache.add\<close> does with a TTL that is zero or negative, for a float clock
  reading: the stored expiry is not after the reading, every later read misses, and the
  call returns unless the log line cannot format the expiry.
\<close>

lemma add_nonpositive_ttl:
  assumes "d \<le> 0" and "is_float t" and "t \<le> t'"
  shows "cls_cache (fst (Cache_add s k v d t)) k = Some v"
    and "cls_ttl (fst (Cache_add s k v d t)) k = Some (float_add t d)"
    and "float_add t d \<le> t"
    and "Cache_get (fst (Cache_add s k v d t)) k t' = Inr None"
    and "snd (Cache_add s k v d t) = Inr () \<longleftrightarrow> \<not> gmtime_raises (float_add t d)"
proof -
  from assms(1,2) show le: "float_add t d \<le> t" by (intro float_add_below) simp_all
  with assms(3) show "Cache_get (fst (Cache_add s k v d t)) k t' = Inr None"
    by (simp add: get_after_add)
qed (simp_all add: Cache_add_def)

lemma invalidate_present:
  "k \<in> dom (cls_cache s) \<Longrightarrow>
     Cache_invalidate s k t = s\<lparr>cls_ttl := (cls_ttl s)(k \<mapsto> t - 60)\<rparr>"
  by (simp add: Cache_invalidate_def contains_dom)

lemma invalidate_absent: "k \<notin> dom (cls_cache s) \<Longrightarrow> Cache_invalidate s k t = s"
  by (simp add: Cache_invalidate_def contains_dom)

lemma get_invalidated:
  "k \<in> dom (cls_cache s) \<Longrightarrow> t - 60 \<le> t' \<Longrightarrow>
     Cache_get (s\<lparr>cls_ttl := (cls_ttl s)(k \<mapsto> t - 60)\<rparr>) k t' = Inr None"
  by (simp add: Cache_get_def contains_dom)

lemma wrapper_invalidate_branch:
  "contains (cls_cache s) key \<Longrightarrow>
     wrapper key ttl ignore True func s t =
       \<lparr>store_after = s\<lparr>cls_ttl := (cls_ttl s)(key \<mapsto> t - 60)\<rparr>,
        func_calls = 1,
        returned = (case func of Inl e \<Rightarrow> Inl (Raised e) | Inr result \<Rightarrow> Inr result)\<rparr>"
  by (simp add: wrapper_def)

lemma wrapper_hit_branch:
  "\<not> (invalidate \<and> contains (cls_cache s) key) \<Longrightarrow> \<not> ignore \<Longrightarrow>
   cls_cache s key = Some v \<Longrightarrow> cls_ttl s key = Some expiry \<Longrightarrow> t < expiry \<Longrightarrow>
     wrapper key ttl ignore invalidate func s t =
       \<lparr>store_after = s, func_calls = 0, returned = Inr v\<rparr>"
  by (simp add: wrapper_def contains_def)

text \<open>
  The miss path of the wrapper leaves the store that \<^verbatim>\<open>Cache.add\<close> leaves when it is
  given the clock reading taken on entry to the wrapper, and it ends as that call of
  \<^verbatim>\<open>Cache.add\<close> ends.
\<close>

lemma wrapper_miss_branch:
  fixes s :: "'v cache_state"
  assumes "\<not> (invalidate \<and> contains (cls_cache s) key)"
    and "ignore \<or> (\<forall>v. Cache_get s key t \<noteq> (Inr (Some v) :: 'e exn + 'v option))"
    and "in_sync s"
  shows "wrapper key ttl ignore invalidate (Inr result :: 'e + 'v) s t =
       \<lparr>store_after = fst (Cache_add s key result ttl t :: 'v cache_state \<times> ('e exn + unit)),
        func_calls = 1,
        returned = (case (snd (Cache_add s key result ttl t) :: 'e exn + unit) of
                      Inl e \<Rightarrow> Inl e | Inr u \<Rightarrow> Inr result)\<rparr>"
proof (cases "cls_cache s key")
  case None
  with assms(1) show ?thesis
    by (simp add: wrapper_def Cache_add_def contains_def)
next
  case (Some w)
  with assms(3) obtain expiry where e: "cls_ttl s key = Some expiry"
    using in_sync_None [of s key] by auto
  from assms(2) Some e have "ignore \<or> \<not> t < expiry"
    by (auto simp: Cache_get_def contains_def)
  with assms(1) Some e show ?thesis
    by (auto simp: wrapper_def Cache_add_def contains_def)
qed

lemma wrapper_one_of:
  assumes "in_sync s"
  shows "(func_calls (wrapper key ttl ignore invalidate func s t) = 0
        \<and> (\<exists>v. cls_cache s key = Some v
               \<and> returned (wrapper key ttl ignore invalidate func s t) = Inr v))
     \<noteq> (func_calls (wrapper key ttl ignore invalidate func s t) = 1)"
proof (cases "cls_cache s key")
  case None
  then show ?thesis
    by (simp add: wrapper_def contains_def split: sum.splits)
next
  case (Some w)
  with assms obtain expiry where "cls_ttl s key = Some expiry"
    using in_sync_None [of s key] by auto
  with Some show ?thesis
    by (simp add: wrapper_def contains_def split: sum.splits)
qed

lemma wrapper_in_sync:
  "in_sync s \<Longrightarrow> in_sync (store_after (wrapper key ttl ignore invalidate func s t))"
  by (auto simp: wrapper_def in_sync_def contains_dom split: sum.splits)

lemma wrapper_no_KeyError:
  "in_sync s \<Longrightarrow> returned (wrapper key ttl ignore invalidate func s t) \<noteq> Inl KeyError"
  by (auto simp: wrapper_def in_sync_def contains_dom domIff split: sum.splits)

lemma get_no_KeyError: "in_sync s \<Longrightarrow> Cache_get s key t \<noteq> Inl KeyError"
  by (auto simp: Cache_get_def in_sync_def contains_dom domIff split: option.splits)

subsection \<open>The store operations\<close>

text \<open>
  C3, as the claim has it: every TTL \<open>d > 0\<close> gives a hit on the immediate read. At
  the clock reading 1700000000 the floats are \<open>1 / 2 ^ 22\<close> apart, so the float sum of
  the reading and the TTL \<open>1 / 2 ^ 24\<close> is the reading itself: \<^verbatim>\<open>Cache.add\<close> stores the
  expiry 1700000000, and \<^verbatim>\<open>Cache.get\<close> at the same reading takes the miss branch.
\<close>

theorem ttl_absorbed_counterexample:
  "is_float 1700000000 \<and> is_float (1 / 2 ^ 24) \<and> (0::real) < 1 / 2 ^ 24
   \<and> cls_ttl (fst (Cache_add initial ''a'' ''x'' (1 / 2 ^ 24) 1700000000 :: string cache_state \<times> (unit exn + unit))) ''a'' = Some 1700000000
   \<and> Cache_get (fst (Cache_add initial ''a'' ''x'' (1 / 2 ^ 24) 1700000000 :: string cache_state \<times> (unit exn + unit))) ''a'' 1700000000 = (Inr None :: unit exn + string option)"
proof -
  have "is_float (of_int 1 * 2 powr of_int (- 24))"
    unfolding is_float_def by (rule float_round_exact) simp_all
  then have small: "is_float (1 / 2 ^ 24)" by (simp add: powr_minus_divide)
  have clock: "is_float 1700000000" by (simp add: is_float_numeral)
  have absorbed: "float_add 1700000000 (1 / 16777216) = 1700000000"
    using float_add_absorbed by simp
  from small clock show ?thesis
    by (simp add: Cache_add_def Cache_get_def contains_def absorbed)
qed

text \<open>
  C3, amended. For a float clock reading \<open>t\<close> and a TTL \<open>d > 0\<close>, \<^verbatim>\<open>Cache.add(k, v, d)\<close>
  leaves (whether or not its log line then raises) the value \<open>v\<close> under \<open>k\<close> with the
  expiry \<open>float_add t d\<close>, the float sum, which is never below \<open>t\<close>. A \<^verbatim>\<open>Cache.get\<close> of the
  key at a reading \<open>t'\<close> takes the hit branch with \<open>v\<close> exactly when \<open>t'\<close> is strictly
  before that expiry; so the immediate read hits exactly when the sum is not rounded
  back to \<open>t\<close>. At every float reading past \<open>t + d\<close> the read misses. In any store,
  \<^verbatim>\<open>Cache.get\<close> takes the hit branch only when the stored expiry is strictly greater
  than the clock reading of the read.
\<close>

theorem ttl_correctness:
  fixes d t :: real and s :: "'v cache_state"
  assumes "0 < d" and "is_float t"
  shows "cls_cache (fst (Cache_add s k v d t :: 'v cache_state \<times> ('e exn + unit))) k = Some v
       \<and> cls_ttl (fst (Cache_add s k v d t :: 'v cache_state \<times> ('e exn + unit))) k = Some (float_add t d)
       \<and> t \<le> float_add t d
       \<and> (\<forall>t'. (Cache_get (fst (Cache_add s k v d t :: 'v cache_state \<times> ('e exn + unit))) k t' = (Inr (Some v) :: 'e exn + 'v option))
                = (t' < float_add t d))
       \<and> ((Cache_get (fst (Cache_add s k v d t :: 'v cache_state \<times> ('e exn + unit))) k t = (Inr (Some v) :: 'e exn + 'v option))
            = (float_add t d \<noteq> t))
       \<and> (\<forall>t'. is_float t' \<and> t + d < t'
             \<longrightarrow> Cache_get (fst (Cache_add s k v d t :: 'v cache_state \<times> ('e exn + unit))) k t' = (Inr None :: 'e exn + 'v option))
       \<and> (\<forall>r w. Cache_get s k r = (Inr (Some w) :: 'e exn + 'v option)
             \<longrightarrow> (\<exists>expiry. cls_ttl s k = Some expiry \<and> r < expiry))"
proof -
  from assms have ge: "t \<le> float_add t d" by (intro float_add_mono_right) simp_all
  have past: "float_add t d \<le> t'" if "is_float t' \<and> t + d < t'" for t'
    using that by (intro float_add_below) simp_all
  have "cls_cache (fst (Cache_add s k v d t :: 'v cache_state \<times> ('e exn + unit))) k = Some v"
    and "cls_ttl (fst (Cache_add s k v d t :: 'v cache_state \<times> ('e exn + unit))) k = Some (float_add t d)"
    by (simp_all add: add_store)
  moreover have "(Cache_get (fst (Cache_add s k v d t :: 'v cache_state \<times> ('e exn + unit))) k t' = (Inr (Some v) :: 'e exn + 'v option))
      = (t' < float_add t d)" for t'
    by (simp add: get_after_add)
  moreover from ge have "(Cache_get (fst (Cache_add s k v d t :: 'v cache_state \<times> ('e exn + unit))) k t = (Inr (Some v) :: 'e exn + 'v option))
      = (float_add t d \<noteq> t)"
    by (auto simp: get_after_add)
  moreover have "Cache_get (fst (Cache_add s k v d t :: 'v cache_state \<times> ('e exn + unit))) k t' = (Inr None :: 'e exn + 'v option)"
    if "is_float t' \<and> t + d < t'" for t'
    using past [OF that] by (simp add: get_after_add)
  moreover have "\<exists>expiry. cls_ttl s k = Some expiry \<and> r < expiry"
    if "Cache_get s k r = (Inr (Some w) :: 'e exn + 'v option)" for r w
    using that by (auto simp: get_found_iff)
  ultimately show ?thesis using ge by blast
qed

theorem ttl_correctness_witness:
  "(0::real) < 10 \<and> is_float 0 \<and> is_float 11
   \<and> cls_ttl (fst (Cache_add initial ''a'' ''x'' 10 0 :: string cache_state \<times> (unit exn + unit))) ''a'' = Some 10
   \<and> Cache_get (fst (Cache_add initial ''a'' ''x'' 10 0 :: string cache_state \<times> (unit exn + unit))) ''a'' 0 = (Inr (Some ''x'') :: unit exn + string option)
   \<and> Cache_get (fst (Cache_add initial ''a'' ''x'' 10 0 :: string cache_state \<times> (unit exn + unit))) ''a'' 9 = (Inr (Some ''x'') :: unit exn + string option)
   \<and> Cache_get (fst (Cache_add initial ''a'' ''x'' 10 0 :: string cache_state \<times> (unit exn + unit))) ''a'' 11 = (Inr None :: unit exn + string option)"
proof -
  have pos: "(0::real) < 10" by simp
  have f11: "is_float 11" by (simp add: is_float_numeral)
  have sum: "float_add 0 10 = 10" by (simp add: float_add_def float_round_numeral)
  from ttl_correctness [OF pos is_float_0, of "initial :: string cache_state" "''a''" "''x''",
      where ?'e = unit] f11 is_float_0 sum
  show ?thesis by simp
qed

text \<open>
  C4. When \<^verbatim>\<open>_cache\<close> has the key, \<^verbatim>\<open>Cache.invalidate\<close> assigns the clock reading
  minus 60 to the key's expiry and nothing else: the value dictionary is as before, so
  the entry is not deleted, and every \<^verbatim>\<open>Cache.get\<close> of the key at the same or a later
  clock reading takes the miss branch, whatever the expiry was before. When \<^verbatim>\<open>_cache\<close>
  does not have the key, the store is returned as it was.
\<close>

theorem invalidate_semantics:
  fixes s :: "'v cache_state" and t :: real
  shows "(k \<in> dom (cls_cache s) \<longrightarrow>
            cls_ttl (Cache_invalidate s k t) = (cls_ttl s)(k \<mapsto> t - 60)
          \<and> cls_cache (Cache_invalidate s k t) = cls_cache s
          \<and> (\<forall>t'. t \<le> t' \<longrightarrow>
                Cache_get (Cache_invalidate s k t) k t' = (Inr None :: 'e exn + 'v option)))
       \<and> (k \<notin> dom (cls_cache s) \<longrightarrow> Cache_invalidate s k t = s)"
proof (intro conjI impI allI)
  assume "k \<in> dom (cls_cache s)"
  then show "cls_ttl (Cache_invalidate s k t) = (cls_ttl s)(k \<mapsto> t - 60)"
    and "cls_cache (Cache_invalidate s k t) = cls_cache s"
    by (simp_all add: invalidate_present)
next
  fix t' assume "k \<in> dom (cls_cache s)" and "t \<le> t'"
  then show "Cache_get (Cache_invalidate s k t) k t' = (Inr None :: 'e exn + 'v option)"
    by (simp add: invalidate_present get_invalidated)
next
  assume "k \<notin> dom (cls_cache s)"
  then show "Cache_invalidate s k t = s" by (rule invalidate_absent)
qed

theorem invalidate_semantics_witness:
  "''a'' \<in> dom (cls_cache \<lparr>cls_cache = [''a'' \<mapsto> ''x''], cls_ttl = [''a'' \<mapsto> 3600]\<rparr>)
   \<and> cls_ttl (Cache_invalidate
        \<lparr>cls_cache = [''a'' \<mapsto> ''x''], cls_ttl = [''a'' \<mapsto> 3600]\<rparr> ''a'' 5) ''a'' = Some (- 55)
   \<and> cls_cache (Cache_invalidate
        \<lparr>cls_cache = [''a'' \<mapsto> ''x''], cls_ttl = [''a'' \<mapsto> 3600]\<rparr> ''a'' 5) ''a'' = Some ''x''
   \<and> Cache_get (Cache_invalidate
        \<lparr>cls_cache = [''a'' \<mapsto> ''x''], cls_ttl = [''a'' \<mapsto> 3600]\<rparr> ''a'' 5) ''a'' 5
       = (Inr None :: unit exn + string option)
   \<and> ''b'' \<notin> dom (cls_cache \<lparr>cls_cache = [''a'' \<mapsto> ''x''], cls_ttl = [''a'' \<mapsto> 3600]\<rparr>)
   \<and> Cache_invalidate \<lparr>cls_cache = [''a'' \<mapsto> ''x''], cls_ttl = [''a'' \<mapsto> 3600]\<rparr> ''b'' 5
       = \<lparr>cls_cache = [''a'' \<mapsto> ''x''], cls_ttl = [''a'' \<mapsto> 3600]\<rparr>"
  using
    invalidate_semantics [of "''a''"
      "\<lparr>cls_cache = [''a'' \<mapsto> ''x''], cls_ttl = [''a'' \<mapsto> 3600]\<rparr>" 5, where ?'e = unit]
    invalidate_semantics [of "''b''"
      "\<lparr>cls_cache = [''a'' \<mapsto> ''x''], cls_ttl = [''a'' \<mapsto> 3600]\<rparr>" 5, where ?'e = unit]
  by simp

text \<open>
  C8. \<^verbatim>\<open>Cache.add\<close> with the TTL \<open>- 10 ^ 18\<close> at the clock reading 1700000000, on the
  empty store. Both assignments are made: the value is stored with the expiry
  \<open>- 999999998300000000\<close>. The log line then hands that expiry to \<^verbatim>\<open>time.gmtime\<close>,
  whose range ends at \<open>gmtime_min\<close>, and the call raises instead of returning.
\<close>

theorem add_raises_on_extreme_ttl:
  "is_float 1700000000 \<and> is_float (- 1000000000000000000)
   \<and> (- 1000000000000000000 :: real) \<le> 0
   \<and> snd (Cache_add initial ''a'' ''x'' (- 1000000000000000000) 1700000000 :: string cache_state \<times> (unit exn + unit)) = Inl GmtimeError
   \<and> cls_cache (fst (Cache_add initial ''a'' ''x'' (- 1000000000000000000) 1700000000 :: string cache_state \<times> (unit exn + unit))) ''a'' = Some ''x''
   \<and> cls_ttl (fst (Cache_add initial ''a'' ''x'' (- 1000000000000000000) 1700000000 :: string cache_state \<times> (unit exn + unit))) ''a'' = Some (- 999999998300000000)"
proof -
  have clock: "is_float 1700000000" by (simp add: is_float_numeral)
  have "is_float (of_int (- 3814697265625) * 2 powr of_int 18)"
    unfolding is_float_def by (rule float_round_exact) simp_all
  then have ttl: "is_float (- 1000000000000000000)" by simp
  have "float_round (of_int (- 7812499986718750) * 2 powr of_int 7)
      = of_int (- 7812499986718750) * 2 powr of_int 7"
    by (rule float_round_exact) simp_all
  then have sum: "float_add 1700000000 (- 1000000000000000000) = - 999999998300000000"
    by (simp add: float_add_def)
  have "gmtime_raises (- 999999998300000000)"
    by (simp add: gmtime_raises_def gmtime_min_def)
  with clock ttl sum show ?thesis by (simp add: Cache_add_def)
qed

text \<open>
  C9. After \<^verbatim>\<open>Cache.clear()\<close> both dictionaries are empty, and \<^verbatim>\<open>Cache.get\<close> takes the
  miss branch for every key and at every clock reading, whatever had been stored before.
\<close>

theorem clear_empties_store:
  "cls_cache (Cache_clear s) = Map.empty
   \<and> cls_ttl (Cache_clear s) = Map.empty
   \<and> Cache_get (Cache_clear s) k t = Inr None"
  by (simp add: Cache_clear_def Cache_get_def contains_def)

subsection \<open>The wrapper\<close>

text \<open>
  C1. A wrapper made with \<^verbatim>\<open>invalidate=True\<close>, called on the empty store: the first
  branch asks for \<^verbatim>\<open>key in cls._cache\<close>, which is false, and \<^verbatim>\<open>ignore\<close> is unset with
  no entry to hit, so the call runs the last branch: it awaits \<^verbatim>\<open>func\<close> once and
  assigns both dictionaries, exactly as \<^verbatim>\<open>Cache.add\<close> with the entry reading would.
  The key has no value before the call and the producer's result after it; a
  \<^verbatim>\<open>Cache.get\<close> one time unit later takes the hit branch, and so does a wrapper of the
  same key made without \<^verbatim>\<open>invalidate\<close>, which returns the stored result without
  awaiting its own producer.
\<close>

theorem invalidate_wrapper_populates_absent_key:
  "store_after (wrapper ''static_data'' 3600 False True (Inr ''r'' :: unit + string) initial 0)
     = fst (Cache_add initial ''static_data'' ''r'' 3600 0 :: string cache_state \<times> (unit exn + unit))
   \<and> cls_cache (store_after
        (wrapper ''static_data'' 3600 False True (Inr ''r'' :: unit + string) initial 0))
        ''static_data'' = Some ''r''
   \<and> cls_cache (initial :: string cache_state) ''static_data'' = None
   \<and> Cache_get (store_after
        (wrapper ''static_data'' 3600 False True (Inr ''r'' :: unit + string) initial 0))
        ''static_data'' 1 = (Inr (Some ''r'') :: unit exn + string option)
   \<and> wrapper ''static_data'' 3600 False False (Inr ''static_data'' :: unit + string)
        (store_after
          (wrapper ''static_data'' 3600 False True (Inr ''r'' :: unit + string) initial 0)) 1
     = \<lparr>store_after = fst (Cache_add initial ''static_data'' ''r'' 3600 0 :: string cache_state \<times> (unit exn + unit)),
        func_calls = 0, returned = Inr ''r''\<rparr>"
  by (simp add: wrapper_def Cache_get_def Cache_add_def contains_def initial_def
      float_add_def float_round_numeral)

text \<open>
  C2. A wrapper with TTL 2 on the empty store, entered at clock reading 0, whose producer
  returns \<^verbatim>\<open>'x'\<close> at clock reading 3: the last branch assigns the expiry from the
  reading taken on entry, \<open>0 + 2\<close>. \<^verbatim>\<open>Cache.add\<close> called with the same key, value and
  TTL when the producer completes reads the clock then and assigns \<open>3 + 2\<close>. The two
  stores differ, and a \<^verbatim>\<open>Cache.get\<close> at reading 3 misses in the wrapper's store and
  hits in the other.
\<close>

theorem wrapper_expiry_from_entry_reading:
  "cls_ttl (store_after (wrapper ''a'' 2 False False (Inr ''x'' :: unit + string) initial 0)) ''a''
     = Some 2
   \<and> cls_ttl (fst (Cache_add initial ''a'' ''x'' 2 3 :: string cache_state \<times> (unit exn + unit))) ''a'' = Some 5
   \<and> store_after (wrapper ''a'' 2 False False (Inr ''x'' :: unit + string) initial 0)
       \<noteq> fst (Cache_add initial ''a'' ''x'' 2 3 :: string cache_state \<times> (unit exn + unit))
   \<and> Cache_get (store_after (wrapper ''a'' 2 False False (Inr ''x'' :: unit + string) initial 0))
        ''a'' 3 = (Inr None :: unit exn + string option)
   \<and> Cache_get (fst (Cache_add initial ''a'' ''x'' 2 3 :: string cache_state \<times> (unit exn + unit))) ''a'' 3
       = (Inr (Some ''x'') :: unit exn + string option)"
proof -
  have a: "cls_ttl (store_after
      (wrapper ''a'' 2 False False (Inr ''x'' :: unit + string) initial 0)) ''a'' = Some 2"
    by (simp add: wrapper_def contains_def initial_def float_add_def float_round_numeral)
  have b: "cls_ttl (fst (Cache_add initial ''a'' ''x'' 2 3 :: string cache_state \<times> (unit exn + unit))) ''a'' = Some 5"
    by (simp add: Cache_add_def float_add_def float_round_numeral)
  from a b have c: "store_after (wrapper ''a'' 2 False False (Inr ''x'' :: unit + string) initial 0)
       \<noteq> fst (Cache_add initial ''a'' ''x'' 2 3 :: string cache_state \<times> (unit exn + unit))"
    by auto
  have d: "Cache_get (store_after
      (wrapper ''a'' 2 False False (Inr ''x'' :: unit + string) initial 0)) ''a'' 3
      = (Inr None :: unit exn + string option)"
    by (simp add: wrapper_def Cache_get_def contains_def initial_def float_add_def
        float_round_numeral)
  have e: "Cache_get (fst (Cache_add initial ''a'' ''x'' 2 3 :: string cache_state \<times> (unit exn + unit))) ''a'' 3
       = (Inr (Some ''x'') :: unit exn + string option)"
    by (simp add: Cache_get_def Cache_add_def contains_def float_add_def float_round_numeral)
  from a b c d e show ?thesis by blast
qed

text \<open>
  C5. The claim is the second step of the wrapper, reached when the first (the
  invalidate branch: \<^verbatim>\<open>invalidate\<close> set and the key in \<^verbatim>\<open>_cache\<close>) does not apply. There,
  with \<^verbatim>\<open>ignore\<close> unset and a valid entry under the key (\<^verbatim>\<open>Cache.get\<close> at the entry
  reading takes the hit branch with value \<open>v\<close>), the call returns \<open>v\<close>, does not await the
  producer and leaves the store as it was. On every call, with any settings, on a store
  of the cache (one entry per key: both dictionaries have the same keys), exactly one
  of the two happens: the call returns the value stored under the key without awaiting
  the producer, or it awaits the producer once.
\<close>

theorem valid_entry_hit:
  fixes s :: "'v cache_state" and func :: "'e + 'v"
  shows "(\<not> ignore \<and> \<not> (invalidate \<and> key \<in> dom (cls_cache s))
          \<and> Cache_get s key t = (Inr (Some v) :: 'e exn + 'v option) \<longrightarrow>
            returned (wrapper key ttl ignore invalidate func s t) = Inr v
          \<and> func_calls (wrapper key ttl ignore invalidate func s t) = 0
          \<and> store_after (wrapper key ttl ignore invalidate func s t) = s)
       \<and> (in_sync s \<longrightarrow>
            ((func_calls (wrapper key ttl ignore invalidate func s t) = 0
               \<and> (\<exists>w. cls_cache s key = Some w
                      \<and> returned (wrapper key ttl ignore invalidate func s t) = Inr w))
             \<noteq> (func_calls (wrapper key ttl ignore invalidate func s t) = 1)))"
proof (intro conjI impI)
  assume a: "\<not> ignore \<and> \<not> (invalidate \<and> key \<in> dom (cls_cache s))
      \<and> Cache_get s key t = (Inr (Some v) :: 'e exn + 'v option)"
  then obtain expiry where "cls_cache s key = Some v" "cls_ttl s key = Some expiry" "t < expiry"
    by (auto simp: get_found_iff)
  with a have "wrapper key ttl ignore invalidate func s t
      = \<lparr>store_after = s, func_calls = 0, returned = Inr v\<rparr>"
    by (intro wrapper_hit_branch) (simp_all add: contains_dom)
  then show "returned (wrapper key ttl ignore invalidate func s t) = Inr v"
    and "func_calls (wrapper key ttl ignore invalidate func s t) = 0"
    and "store_after (wrapper key ttl ignore invalidate func s t) = s"
    by simp_all
next
  assume "in_sync s"
  then show "(func_calls (wrapper key ttl ignore invalidate func s t) = 0
               \<and> (\<exists>w. cls_cache s key = Some w
                      \<and> returned (wrapper key ttl ignore invalidate func s t) = Inr w))
             \<noteq> (func_calls (wrapper key ttl ignore invalidate func s t) = 1)"
    by (rule wrapper_one_of)
qed

theorem valid_entry_hit_witness:
  "\<not> False \<and> \<not> (False \<and> ''a'' \<in> dom (cls_cache \<lparr>cls_cache = [''a'' \<mapsto> ''x''], cls_ttl = [''a'' \<mapsto> 10]\<rparr>))
   \<and> Cache_get \<lparr>cls_cache = [''a'' \<mapsto> ''x''], cls_ttl = [''a'' \<mapsto> 10]\<rparr> ''a'' 1
       = (Inr (Some ''x'') :: unit exn + string option)
   \<and> returned (wrapper ''a'' 10 False False (Inr ''y'' :: unit + string)
        \<lparr>cls_cache = [''a'' \<mapsto> ''x''], cls_ttl = [''a'' \<mapsto> 10]\<rparr> 1) = Inr ''x''
   \<and> func_calls (wrapper ''a'' 10 False False (Inr ''y'' :: unit + string)
        \<lparr>cls_cache = [''a'' \<mapsto> ''x''], cls_ttl = [''a'' \<mapsto> 10]\<rparr> 1) = 0
   \<and> in_sync \<lparr>cls_cache = [''a'' \<mapsto> ''x''], cls_ttl = [''a'' \<mapsto> 10]\<rparr>
   \<and> func_calls (wrapper ''a'' 10 False False (Inr ''y'' :: unit + string)
        \<lparr>cls_cache = [''a'' \<mapsto> ''x''], cls_ttl = [''a'' \<mapsto> 10]\<rparr> 1) \<noteq> 1"
proof -
  have valid: "Cache_get \<lparr>cls_cache = [''a'' \<mapsto> ''x''], cls_ttl = [''a'' \<mapsto> 10]\<rparr> ''a'' 1
      = (Inr (Some ''x'') :: unit exn + string option)"
    by (simp add: Cache_get_def contains_def)
  have sync: "in_sync \<lparr>cls_cache = [''a'' \<mapsto> ''x''], cls_ttl = [''a'' \<mapsto> 10]\<rparr>"
    by (simp add: in_sync_def)
  from valid sync
    valid_entry_hit [where ignore = False and invalidate = False and key = "''a''"
      and s = "\<lparr>cls_cache = [''a'' \<mapsto> ''x''], cls_ttl = [''a'' \<mapsto> 10]\<rparr>"
      and t = 1 and v = "''x''" and ttl = 10 and func = "Inr ''y'' :: unit + string"]
  show ?thesis by simp
qed

text \<open>
  C6. A wrapper made with \<^verbatim>\<open>invalidate=True\<close>, called when \<^verbatim>\<open>_cache\<close> has the key
  (whatever its expiry): the store it leaves is the one \<^verbatim>\<open>Cache.invalidate\<close> leaves at
  the same clock reading, that is the key's expiry becomes the reading minus 60 and no
  other expiry changes; the value dictionary is as before; the producer is awaited once
  and the call returns its result (or raises what it raised).
\<close>

theorem wrapper_invalidate_present:
  fixes s :: "'v cache_state" and func :: "'e + 'v"
  assumes "key \<in> dom (cls_cache s)"
  shows "store_after (wrapper key ttl ignore True func s t) = Cache_invalidate s key t
       \<and> cls_ttl (store_after (wrapper key ttl ignore True func s t)) = (cls_ttl s)(key \<mapsto> t - 60)
       \<and> cls_cache (store_after (wrapper key ttl ignore True func s t)) = cls_cache s
       \<and> func_calls (wrapper key ttl ignore True func s t) = 1
       \<and> returned (wrapper key ttl ignore True func s t)
           = (case func of Inl e \<Rightarrow> Inl (Raised e) | Inr result \<Rightarrow> Inr result)"
  using assms
  by (simp add: wrapper_invalidate_branch contains_dom Cache_invalidate_def)

theorem wrapper_invalidate_present_witness:
  "''a'' \<in> dom (cls_cache \<lparr>cls_cache = [''a'' \<mapsto> ''x''], cls_ttl = [''a'' \<mapsto> 10]\<rparr>)
   \<and> cls_ttl (store_after (wrapper ''a'' 10 False True (Inr ''y'' :: unit + string)
        \<lparr>cls_cache = [''a'' \<mapsto> ''x''], cls_ttl = [''a'' \<mapsto> 10]\<rparr> 1)) ''a'' = Some (- 59)
   \<and> cls_cache (store_after (wrapper ''a'' 10 False True (Inr ''y'' :: unit + string)
        \<lparr>cls_cache = [''a'' \<mapsto> ''x''], cls_ttl = [''a'' \<mapsto> 10]\<rparr> 1)) ''a'' = Some ''x''
   \<and> func_calls (wrapper ''a'' 10 False True (Inr ''y'' :: unit + string)
        \<lparr>cls_cache = [''a'' \<mapsto> ''x''], cls_ttl = [''a'' \<mapsto> 10]\<rparr> 1) = 1
   \<and> returned (wrapper ''a'' 10 False True (Inr ''y'' :: unit + string)
        \<lparr>cls_cache = [''a'' \<mapsto> ''x''], cls_ttl = [''a'' \<mapsto> 10]\<rparr> 1) = Inr ''y''"
proof -
  have present: "''a'' \<in> dom (cls_cache \<lparr>cls_cache = [''a'' \<mapsto> ''x''], cls_ttl = [''a'' \<mapsto> 10]\<rparr>)"
    by simp
  from wrapper_invalidate_present [OF present, of 10 False "Inr ''y'' :: unit + string" 1] present
  show ?thesis by (simp add: Cache_invalidate_def contains_def)
qed

text \<open>
  C7. When the producer raises \<open>e\<close>, the value dictionary after the call is the one
  before it, in every branch; whenever the producer was awaited, the call raises \<open>e\<close>
  itself; and outside the invalidate branch the whole store is as before.
\<close>

theorem producer_failure_propagates:
  fixes s :: "'v cache_state" and e :: 'e
  shows "cls_cache (store_after (wrapper key ttl ignore invalidate (Inl e) s t)) = cls_cache s
       \<and> (func_calls (wrapper key ttl ignore invalidate (Inl e :: 'e + 'v) s t) = 1 \<longrightarrow>
            returned (wrapper key ttl ignore invalidate (Inl e) s t) = Inl (Raised e))
       \<and> (\<not> (invalidate \<and> key \<in> dom (cls_cache s)) \<longrightarrow>
            store_after (wrapper key ttl ignore invalidate (Inl e) s t) = s)"
  by (simp add: wrapper_def contains_dom)

theorem producer_failure_propagates_witness:
  "func_calls (wrapper ''a'' 10 False False (Inl ''boom'' :: string + string) initial 0) = 1
   \<and> returned (wrapper ''a'' 10 False False (Inl ''boom'' :: string + string) initial 0)
       = Inl (Raised ''boom'')
   \<and> \<not> (False \<and> ''a'' \<in> dom (cls_cache (initial :: string cache_state)))
   \<and> store_after (wrapper ''a'' 10 False False (Inl ''boom'' :: string + string) initial 0) = initial"
proof -
  have calls: "func_calls (wrapper ''a'' 10 False False (Inl ''boom'' :: string + string) initial 0) = 1"
    by (simp add: wrapper_def initial_def contains_def)
  from producer_failure_propagates
    [of "''a''" 10 False False "''boom''" "initial :: string cache_state" 0] calls
  show ?thesis by simp
qed

subsection \<open>The two dictionaries stay in step\<close>

text \<open>
  C10. From a store whose two dictionaries have the same keys, \<^verbatim>\<open>Cache.add\<close>,
  \<^verbatim>\<open>Cache.invalidate\<close>, \<^verbatim>\<open>Cache.clear\<close> and a call of any wrapper leave a store whose
  dictionaries have the same keys (\<^verbatim>\<open>Cache.get\<close> assigns nothing), and on such a store
  neither \<^verbatim>\<open>Cache.get\<close> nor the wrapper raises \<^verbatim>\<open>KeyError\<close> from \<^verbatim>\<open>cls._ttl[key]\<close>.
  The initial store is one of them.
\<close>

theorem mappings_stay_in_sync:
  fixes s :: "'v cache_state" and func :: "'e + 'v"
  assumes "in_sync s"
  shows "in_sync (fst (Cache_add s key val ttl t :: 'v cache_state \<times> ('e exn + unit)))
       \<and> in_sync (Cache_invalidate s key t)
       \<and> in_sync (Cache_clear s)
       \<and> in_sync (store_after (wrapper key ttl ignore invalidate func s t))
       \<and> Cache_get s key t \<noteq> (Inl KeyError :: 'e exn + 'v option)
       \<and> returned (wrapper key ttl ignore invalidate func s t) \<noteq> Inl KeyError"
proof -
  from assms
  have "in_sync (fst (Cache_add s key val ttl t :: 'v cache_state \<times> ('e exn + unit)))"
    by (simp add: in_sync_def Cache_add_def)
  moreover from assms have "in_sync (Cache_invalidate s key t)"
    by (auto simp: in_sync_def Cache_invalidate_def contains_dom)
  moreover have "in_sync (Cache_clear s)"
    by (simp add: in_sync_def Cache_clear_def)
  ultimately show ?thesis
    using assms by (simp add: wrapper_in_sync wrapper_no_KeyError get_no_KeyError)
qed

theorem mappings_stay_in_sync_witness:
  "in_sync (initial :: string cache_state)
   \<and> in_sync (fst (Cache_add initial ''a'' ''x'' 10 0 :: string cache_state \<times> (unit exn + unit)))
   \<and> in_sync (store_after (wrapper ''a'' 10 False False (Inr ''x'' :: unit + string) initial 0))
   \<and> returned (wrapper ''a'' 10 False False (Inr ''x'' :: unit + string) initial 0) \<noteq> Inl KeyError"
proof -
  have start: "in_sync (initial :: string cache_state)"
    by (simp add: in_sync_def initial_def)
  from mappings_stay_in_sync [OF start, of "''a''" "''x''" 10 0 False False "Inr ''x'' :: unit + string"] start
  show ?thesis by simp
qed

end
